theory Spec2Isabelle
  imports Complex_Main
begin

section \<open>Data model\<close>

text \<open>
  JavaScript numbers are modelled as exact reals: rounding error, NaN and infinities
  are outside the model, and nothing below rests on a property of floating-point
  trigonometry: the rotation is an input. Where the source would divide zero by zero or
  hand a zero-length segment to the host, the model returns an error value instead.
\<close>

record waypoint =
  wp_x :: real
  wp_y :: real
  wp_elevation :: real

text \<open>\<open>Region.MOVEMENT_SEGMENT_TYPES\<close> of the host.\<close>

datatype segment_type = ENTER | MOVE | EXIT

record segment =
  seg_type :: segment_type
  seg_from :: waypoint
  seg_to :: waypoint

text \<open>\<open>FLAGS.REGION.CHOICES\<close> (the constants are declared in \<open>const.js\<close>).\<close>

datatype algorithm_choice = NONE | PLATEAU | RAMP | STAIRS

text \<open>
  \<open>behavior.system\<close>: the configured fields read by \<open>Region.js\<close>, and the two methods
  it calls on it. The methods are defined in a file that is not part of the sources, so
  they are fields of the record, and every result holds for any implementation of them.
\<close>

record behavior_system =
  algorithm :: algorithm_choice
  sys_elevation :: real
  sys_floor :: real
  reset :: bool
  sys_plateauElevation :: "waypoint \<Rightarrow> real"
  sys_plateauSegmentIntersection :: "waypoint \<Rightarrow> waypoint \<Rightarrow> waypoint option"

record behavior =
  btype :: string
  disabled :: bool
  system :: behavior_system

definition MODULE_ID :: string where
  "MODULE_ID = ''terrainmapper''"

definition setElevation_type :: string where
  "setElevation_type = MODULE_ID @ ''.setElevation''"

text \<open>
  \<open>canvas.scene?.getFlag(MODULE_ID, FLAGS.SCENE.BACKGROUND_ELEVATION) ?? 0\<close>: the scene
  flag is an input, absent when there is no scene or no flag.
\<close>

definition terrainFloor_of :: "real option \<Rightarrow> real" where
  "terrainFloor_of flag = (case flag of None \<Rightarrow> 0 | Some e \<Rightarrow> e)"

text \<open>
  Modelled from the spec: \<open>regionWaypointsXYEqual\<close> and \<open>regionWaypointsEqual\<close> of
  \<open>util.js\<close>, which is not among the sources: two waypoints share the same (x, y),
  respectively the same (x, y, elevation).
\<close>

definition regionWaypointsXYEqual :: "waypoint \<Rightarrow> waypoint \<Rightarrow> bool" where
  "regionWaypointsXYEqual a b \<longleftrightarrow> wp_x a = wp_x b \<and> wp_y a = wp_y b"

definition regionWaypointsEqual :: "waypoint \<Rightarrow> waypoint \<Rightarrow> bool" where
  "regionWaypointsEqual a b \<longleftrightarrow>
     wp_x a = wp_x b \<and> wp_y a = wp_y b \<and> wp_elevation a = wp_elevation b"

text \<open>\<open>Number.prototype.almostEqual(n, e = 1e-8)\<close> of the host.\<close>

definition almostEqual :: "real \<Rightarrow> real \<Rightarrow> bool" where
  "almostEqual a b \<longleftrightarrow> \<bar>a - b\<bar> < 1 / 10 ^ 8"

section \<open>Segment lists\<close>

text \<open>
  A segment list is a JavaScript array whose entries may be missing (the scans test
  \<open>!segment\<close>). Reading past the end gives \<open>undefined\<close>.
\<close>

type_synonym segments = "segment option list"

definition segment_at :: "segments \<Rightarrow> nat \<Rightarrow> segment option" where
  "segment_at segs i = (if i < length segs then segs ! i else None)"

text \<open>\<open>segments.splice(i, 0, v)\<close> and \<open>segments.splice(i, 1, a, b)\<close>.\<close>

definition splice_insert :: "nat \<Rightarrow> segment \<Rightarrow> segments \<Rightarrow> segments" where
  "splice_insert i v segs = take i segs @ [Some v] @ drop i segs"

definition splice_replace2 :: "nat \<Rightarrow> segment \<Rightarrow> segment \<Rightarrow> segments \<Rightarrow> segments" where
  "splice_replace2 i a b segs = take i segs @ [Some a, Some b] @ drop (Suc i) segs"

definition constructVerticalMoveSegment :: "waypoint \<Rightarrow> real \<Rightarrow> segment" where
  "constructVerticalMoveSegment w targetElevation =
     \<lparr> seg_type = MOVE,
       seg_from = \<lparr> wp_x = wp_x w, wp_y = wp_y w, wp_elevation = wp_elevation w \<rparr>,
       seg_to = \<lparr> wp_x = wp_x w, wp_y = wp_y w, wp_elevation = targetElevation \<rparr> \<rparr>"

text \<open>
  \<open>insertVerticalMoveToTerrainFloor(i, segments, floor)\<close> returns the updated list and the
  number of segments added. The segment at \<open>i\<close> is set to the floor first, so when there is
  no previous segment the fallback \<open>{ to: segment.from }\<close> is already at the floor. Every
  caller has just read a defined \<open>segments[i]\<close>; for a missing entry (where the source
  would fail on \<open>segment.from\<close>) the model leaves the list as it is.
\<close>

definition insertVerticalMoveToTerrainFloor :: "nat \<Rightarrow> segments \<Rightarrow> real \<Rightarrow> segments \<times> nat" where
  "insertVerticalMoveToTerrainFloor i segs fl =
     (case segment_at segs i of
        None \<Rightarrow> (segs, 0)
      | Some seg \<Rightarrow>
          let seg' = seg \<lparr> seg_from := (seg_from seg) \<lparr> wp_elevation := fl \<rparr>,
                          seg_to := (seg_to seg) \<lparr> wp_elevation := fl \<rparr> \<rparr>;
              segs' = segs [i := Some seg'];
              prevTo = (case (if i = 0 then None else segment_at segs' (i - 1)) of
                          None \<Rightarrow> seg_from seg'
                        | Some prevSegment \<Rightarrow> seg_to prevSegment)
          in if wp_elevation prevTo \<noteq> fl
             then (splice_insert i (constructVerticalMoveSegment prevTo fl) segs', 1)
             else (segs', 0))"

section \<open>The scan state\<close>

text \<open>
  The loops of \<open>Region.js\<close> run \<open>for (let i = 0, n = segments.length; i < n; i += 1)\<close>
  over an array they splice while scanning. The state is the array, \<open>i\<close>, \<open>n\<close> and the
  flag \<open>entered\<close>; one step is the loop body, and the loop adds the \<open>i += 1\<close>.
\<close>

record scan =
  segments :: segments
  idx :: nat
  len :: nat
  entered :: bool

definition advance :: "'a scan_scheme \<Rightarrow> 'a scan_scheme" where
  "advance st = st \<lparr> idx := Suc (idx st) \<rparr>"

section \<open>Plateau\<close>

definition plateau_step :: "behavior \<Rightarrow> bool \<Rightarrow> real \<Rightarrow> scan \<Rightarrow> scan" where
  "plateau_step b freefall terrainFloor st =
     (let segs = segments st; i = idx st; elev = sys_elevation (system b) in
      case segment_at segs i of
        None \<Rightarrow> st
      | Some segment \<Rightarrow>
          (case seg_type segment of
             ENTER \<Rightarrow>
               if elev = wp_elevation (seg_to segment) then st \<lparr> entered := True \<rparr>
               else st \<lparr> segments :=
                           splice_insert (i + 1)
                             (constructVerticalMoveSegment (seg_to segment) elev) segs,
                         idx := i + 1, len := len st + 1, entered := True \<rparr>
           | MOVE \<Rightarrow>
               if entered st then
                 st \<lparr> segments := segs [i := Some (segment
                        \<lparr> seg_from := (seg_from segment)
                             \<lparr> wp_elevation := max elev (wp_elevation (seg_from segment)) \<rparr>,
                          seg_to := (seg_to segment)
                             \<lparr> wp_elevation := max elev (wp_elevation (seg_to segment)) \<rparr> \<rparr>)] \<rparr>
               else if freefall \<and> wp_elevation (seg_from segment) > elev
                        \<and> wp_elevation (seg_to segment) < elev then
                 (case (if regionWaypointsXYEqual (seg_from segment) (seg_to segment)
                        then Some ((seg_from segment) \<lparr> wp_elevation := elev \<rparr>)
                        else sys_plateauSegmentIntersection (system b)
                               (seg_from segment) (seg_to segment)) of
                    None \<Rightarrow> st
                  | Some ix \<Rightarrow>
                      if regionWaypointsEqual ix (seg_from segment)
                         \<or> regionWaypointsEqual ix (seg_to segment) then st
                      else st \<lparr> segments :=
                                  splice_replace2 i
                                    \<lparr> seg_type = MOVE, seg_from = seg_from segment, seg_to = ix \<rparr>
                                    \<lparr> seg_type = MOVE, seg_from = ix, seg_to = seg_to segment \<rparr>
                                    segs,
                                len := len st + 1 \<rparr>)
               else st
           | EXIT \<Rightarrow>
               if \<not> reset (system b) then st \<lparr> entered := False \<rparr>
               else if \<not> (freefall \<or> (entered st \<and> elev \<noteq> wp_elevation (seg_from segment)))
               then st \<lparr> entered := False \<rparr>
               else
                 (let r = insertVerticalMoveToTerrainFloor i segs terrainFloor in
                  st \<lparr> segments := fst r, idx := i + snd r, len := len st + snd r,
                       entered := False \<rparr>)))"

text \<open>
  With an arbitrary intersection method a split segment could be split again without end,
  so the loop is a partial function: \<open>None\<close> is a scan that never finishes.
\<close>

partial_function (option) plateau_loop :: "behavior \<Rightarrow> bool \<Rightarrow> real \<Rightarrow> scan \<Rightarrow> segments option" where
  "plateau_loop b freefall terrainFloor st =
     (if idx st < len st
      then plateau_loop b freefall terrainFloor (advance (plateau_step b freefall terrainFloor st))
      else Some (segments st))"

definition modifySegmentsForPlateau ::
  "segments \<Rightarrow> behavior \<Rightarrow> bool \<Rightarrow> real option \<Rightarrow> segments option" where
  "modifySegmentsForPlateau segs b freefall sceneFlag =
     (if btype b \<noteq> setElevation_type \<or> disabled b \<or> algorithm (system b) \<noteq> PLATEAU
      then Some segs
      else plateau_loop b freefall (terrainFloor_of sceneFlag)
             \<lparr> segments = segs, idx = 0, len = length segs, entered = False \<rparr>)"

section \<open>Stairs\<close>

text \<open>\<open>Math.round\<close>: the nearest integer, a tie going up.\<close>

definition js_round :: "real \<Rightarrow> real" where
  "js_round v = of_int \<lfloor>v + 1 / 2\<rfloor>"

record stairs_scan = scan +
  up :: bool
  targetElevation :: real

definition midE :: "behavior \<Rightarrow> real" where
  "midE b = js_round ((sys_elevation (system b) - sys_floor (system b)) * (1 / 2))"

definition stairs_step :: "behavior \<Rightarrow> real \<Rightarrow> stairs_scan \<Rightarrow> stairs_scan" where
  "stairs_step b terrainFloor st =
     (let segs = segments st; i = idx st;
          elev = sys_elevation (system b); fl = sys_floor (system b) in
      case segment_at segs i of
        None \<Rightarrow> st
      | Some segment \<Rightarrow>
          (case seg_type segment of
             ENTER \<Rightarrow>
               (let u = (wp_elevation (seg_from segment) \<le> midE b) in
                st \<lparr> entered := True, up := u,
                     targetElevation := (if u then elev else fl) \<rparr>)
           | MOVE \<Rightarrow>
               if \<not> entered st then st
               else
                 (let cmpFn = (if up st then max else min) in
                  st \<lparr> segments := segs [i := Some (segment
                         \<lparr> seg_from := (seg_from segment)
                              \<lparr> wp_elevation :=
                                  cmpFn (targetElevation st) (wp_elevation (seg_from segment)) \<rparr>,
                           seg_to := (seg_to segment)
                              \<lparr> wp_elevation :=
                                  cmpFn (targetElevation st) (wp_elevation (seg_to segment)) \<rparr> \<rparr>)] \<rparr>)
           | EXIT \<Rightarrow>
               if \<not> (entered st \<or> elev = wp_elevation (seg_from segment)
                        \<or> fl = wp_elevation (seg_from segment)) then st
               else if \<not> reset (system b) then st \<lparr> entered := False \<rparr>
               else
                 (let r = insertVerticalMoveToTerrainFloor i segs terrainFloor in
                  st \<lparr> segments := fst r, idx := i + snd r, len := len st + snd r,
                       entered := False \<rparr>)))"

function stairs_loop :: "behavior \<Rightarrow> real \<Rightarrow> stairs_scan \<Rightarrow> segments" where
  "stairs_loop b terrainFloor st =
     (if idx st < len st
      then stairs_loop b terrainFloor (advance (stairs_step b terrainFloor st))
      else segments st)"
  by pat_completeness auto
termination
  by (relation "measure (\<lambda>(b, terrainFloor, st). len st - idx st)")
     (auto simp: stairs_step_def advance_def insertVerticalMoveToTerrainFloor_def Let_def
           split: option.splits segment_type.splits)

declare stairs_loop.simps [simp del]

definition modifySegmentsForStairs :: "segments \<Rightarrow> behavior \<Rightarrow> real option \<Rightarrow> segments" where
  "modifySegmentsForStairs segs b sceneFlag =
     (if btype b \<noteq> setElevation_type \<or> disabled b \<or> algorithm (system b) \<noteq> STAIRS
      then segs
      else stairs_loop b (terrainFloor_of sceneFlag)
             \<lparr> segments = segs, idx = 0, len = length segs, entered = False,
               up = True, targetElevation = sys_elevation (system b) \<rparr>)"

section \<open>Ramp\<close>

text \<open>
  The host builds each segment with waypoint objects of its own, so assigning to one
  segment's elevation changes no other segment. The one exception is made by the scan
  itself: a split stores the same intersection object \<open>ix\<close> as the \<open>to\<close> of the first half
  and the \<open>from\<close> of the second. The second half is scanned next, and the ramp scan may
  assign to its \<open>from.elevation\<close>; \<open>ixShared\<close> records that this waypoint is also the
  previous segment's \<open>to\<close>.
\<close>

record ramp_scan = scan +
  ixShared :: bool

definition set_prev_to_elevation :: "nat \<Rightarrow> real \<Rightarrow> segments \<Rightarrow> segments" where
  "set_prev_to_elevation i e segs =
     (if i = 0 then segs
      else case segment_at segs (i - 1) of
             None \<Rightarrow> segs
           | Some p \<Rightarrow> segs [i - 1 := Some (p \<lparr> seg_to := (seg_to p) \<lparr> wp_elevation := e \<rparr> \<rparr>)])"

definition ramp_step :: "behavior \<Rightarrow> bool \<Rightarrow> real \<Rightarrow> ramp_scan \<Rightarrow> ramp_scan" where
  "ramp_step b freefall terrainFloor st =
     (let segs = segments st; i = idx st; plateauElevation = sys_plateauElevation (system b) in
      case segment_at segs i of
        None \<Rightarrow> st \<lparr> ixShared := False \<rparr>
      | Some segment \<Rightarrow>
          (case seg_type segment of
             ENTER \<Rightarrow>
               (let elev = plateauElevation (seg_to segment) in
                if elev = wp_elevation (seg_to segment)
                then st \<lparr> entered := True, ixShared := False \<rparr>
                else st \<lparr> segments :=
                            splice_insert (i + 1)
                              (constructVerticalMoveSegment (seg_to segment) elev) segs,
                          idx := i + 1, len := len st + 1, entered := True,
                          ixShared := False \<rparr>)
           | MOVE \<Rightarrow>
               (let currRampElevation = plateauElevation (seg_from segment) in
                if entered st \<or> almostEqual (wp_elevation (seg_from segment)) currRampElevation
                then
                  (let segs1 = (if ixShared st
                                then set_prev_to_elevation i currRampElevation segs else segs) in
                   st \<lparr> segments := segs1 [i := Some (segment
                          \<lparr> seg_from := (seg_from segment) \<lparr> wp_elevation := currRampElevation \<rparr>,
                            seg_to := (seg_to segment)
                              \<lparr> wp_elevation := plateauElevation (seg_to segment) \<rparr> \<rparr>)],
                        ixShared := False \<rparr>)
                else if \<not> (freefall
                            \<or> wp_elevation (seg_from segment) = wp_elevation (seg_to segment))
                then st \<lparr> ixShared := False \<rparr>
                else
                  (case sys_plateauSegmentIntersection (system b)
                          (seg_from segment) (seg_to segment) of
                     None \<Rightarrow> st \<lparr> ixShared := False \<rparr>
                   | Some ix \<Rightarrow>
                       if regionWaypointsEqual ix (seg_from segment)
                          \<or> regionWaypointsEqual ix (seg_to segment)
                       then st \<lparr> ixShared := False \<rparr>
                       else st \<lparr> segments :=
                                   splice_replace2 i
                                     \<lparr> seg_type = MOVE, seg_from = seg_from segment, seg_to = ix \<rparr>
                                     \<lparr> seg_type = MOVE, seg_from = ix, seg_to = seg_to segment \<rparr>
                                     segs,
                                 len := len st + 1, ixShared := True \<rparr>))
           | EXIT \<Rightarrow>
               if \<not> reset (system b) then st \<lparr> entered := False, ixShared := False \<rparr>
               else if \<not> (freefall \<or> (entered st
                          \<and> plateauElevation (seg_from segment) \<noteq> wp_elevation (seg_from segment)))
               then st \<lparr> entered := False, ixShared := False \<rparr>
               else
                 (let r = insertVerticalMoveToTerrainFloor i segs terrainFloor in
                  st \<lparr> segments := fst r, idx := i + snd r, len := len st + snd r,
                       entered := False, ixShared := False \<rparr>)))"

partial_function (option) ramp_loop :: "behavior \<Rightarrow> bool \<Rightarrow> real \<Rightarrow> ramp_scan \<Rightarrow> segments option" where
  "ramp_loop b freefall terrainFloor st =
     (if idx st < len st
      then ramp_loop b freefall terrainFloor (advance (ramp_step b freefall terrainFloor st))
      else Some (segments st))"

definition modifySegmentsForRamp ::
  "segments \<Rightarrow> behavior \<Rightarrow> bool \<Rightarrow> real option \<Rightarrow> segments option" where
  "modifySegmentsForRamp segs b freefall sceneFlag =
     (if btype b \<noteq> setElevation_type \<or> disabled b \<or> algorithm (system b) \<noteq> RAMP
      then Some segs
      else ramp_loop b freefall (terrainFloor_of sceneFlag)
             \<lparr> segments = segs, idx = 0, len = length segs, entered = False,
               ixShared = False \<rparr>)"

section \<open>Axis projection\<close>

record point =
  pt_x :: real
  pt_y :: real

text \<open>A \<open>PIXI.Rectangle\<close> of the host, with its derived edges and centre.\<close>

record rectangle =
  rect_x :: real
  rect_y :: real
  rect_width :: real
  rect_height :: real

definition rect_left :: "rectangle \<Rightarrow> real" where "rect_left r = rect_x r"
definition rect_right :: "rectangle \<Rightarrow> real" where "rect_right r = rect_x r + rect_width r"
definition rect_top :: "rectangle \<Rightarrow> real" where "rect_top r = rect_y r"
definition rect_bottom :: "rectangle \<Rightarrow> real" where "rect_bottom r = rect_y r + rect_height r"

definition rect_center :: "rectangle \<Rightarrow> point" where
  "rect_center r =
     \<lparr> pt_x = rect_x r + rect_width r * (1 / 2), pt_y = rect_y r + rect_height r * (1 / 2) \<rparr>"

text \<open>
  A polygon of the host: its vertices (the flat array \<open>points\<close> read in pairs), the flag
  \<open>_isPositive\<close> (false for a hole) and the host's \<open>center\<close>.
\<close>

record polygon =
  points :: "(real \<times> real) list"
  isPositive :: bool
  center :: point

record region =
  polygons :: "polygon list"
  bounds :: rectangle

text \<open>
  The host's \<open>getBounds\<close> of a polygon: the axis-aligned bounding box of its vertices,
  the empty rectangle at the origin when there is none.
\<close>

definition getBounds :: "(real \<times> real) list \<Rightarrow> rectangle" where
  "getBounds pts =
     (case pts of
        [] \<Rightarrow> \<lparr> rect_x = 0, rect_y = 0, rect_width = 0, rect_height = 0 \<rparr>
      | p # ps \<Rightarrow>
          let minX = fold (\<lambda>q m. min (fst q) m) ps (fst p);
              maxX = fold (\<lambda>q m. max (fst q) m) ps (fst p);
              minY = fold (\<lambda>q m. min (snd q) m) ps (snd p);
              maxY = fold (\<lambda>q m. max (snd q) m) ps (snd p)
          in \<lparr> rect_x = minX, rect_y = minY,
               rect_width = maxX - minX, rect_height = maxY - minY \<rparr>)"

text \<open>
  A direction is a whole number of degrees, as the ramp direction is configured.
  \<open>direction % 90\<close>: the remainder takes the sign of the dividend.
\<close>

definition js_rem :: "int \<Rightarrow> int \<Rightarrow> int" where
  "js_rem a b = sgn a * (\<bar>a\<bar> mod \<bar>b\<bar>)"

text \<open>
  The host's \<open>Math.toRadians\<close> and the matrix library \<open>geometry/Matrix.js\<close> are not among
  the sources, and they compute in floating point. They are inputs: the conversion of
  degrees to radians, and \<open>matrixRotate rotation centroid (x, y)\<close>, the image of the row
  vector \<open>[x, y, 1]\<close> under the product that \<open>rotatePolygon\<close> builds from
  \<open>Matrix.translation\<close>, \<open>Matrix.rotationZ\<close> and \<open>multiply3x3\<close>. Nothing is assumed of
  either; in particular they need not agree on two angles a full turn apart.
\<close>

record host_geometry =
  toRadians :: "int \<Rightarrow> real"
  matrixRotate :: "real \<Rightarrow> point \<Rightarrow> real \<times> real \<Rightarrow> real \<times> real"

definition rotatePolygon ::
  "'a host_geometry_scheme \<Rightarrow> (real \<times> real) list \<Rightarrow> real \<Rightarrow> point \<Rightarrow> (real \<times> real) list" where
  "rotatePolygon lib pts rotation centroid =
     (if rotation = 0 then pts else map (matrixRotate lib rotation centroid) pts)"

record minmax =
  mm_min :: point
  mm_max :: point

text \<open>
  \<open>minMaxPolygonPointsAlongAxis(poly, direction, centroid)\<close>, the same text in
  \<open>Region.js\<close> and \<open>RegionElevationHandler.js\<close>. \<open>None\<close> is the \<open>undefined\<close> returned
  when the \<open>switch\<close> matches no case.
\<close>

definition minMaxPolygonPointsAlongAxis ::
  "'a host_geometry_scheme \<Rightarrow> polygon \<Rightarrow> int \<Rightarrow> point option \<Rightarrow> minmax option" where
  "minMaxPolygonPointsAlongAxis lib poly direction centroid_arg =
     (let centroid = (case centroid_arg of None \<Rightarrow> center poly | Some c \<Rightarrow> c) in
      if js_rem direction 90 \<noteq> 0 then
        (let rotatedPoly = rotatePolygon lib (points poly) (toRadians lib (360 - direction)) centroid;
             bounds = getBounds rotatedPoly;
             minMaxRotatedPoly = [(pt_x centroid, rect_top bounds), (pt_x centroid, rect_bottom bounds)];
             minMaxPoly = rotatePolygon lib minMaxRotatedPoly
                            (- toRadians lib (360 - direction)) centroid
         in Some \<lparr> mm_min = \<lparr> pt_x = fst (minMaxPoly ! 0), pt_y = snd (minMaxPoly ! 0) \<rparr>,
                   mm_max = \<lparr> pt_x = fst (minMaxPoly ! 1), pt_y = snd (minMaxPoly ! 1) \<rparr> \<rparr>)
      else
        (let bounds = getBounds (points poly) in
         if direction = 0 then
           Some \<lparr> mm_min = \<lparr> pt_x = pt_x centroid, pt_y = rect_top bounds \<rparr>,
                  mm_max = \<lparr> pt_x = pt_x centroid, pt_y = rect_bottom bounds \<rparr> \<rparr>
         else if direction = 90 then
           Some \<lparr> mm_min = \<lparr> pt_x = rect_right bounds, pt_y = pt_y centroid \<rparr>,
                  mm_max = \<lparr> pt_x = rect_left bounds, pt_y = pt_y centroid \<rparr> \<rparr>
         else if direction = 180 then
           Some \<lparr> mm_min = \<lparr> pt_x = pt_x centroid, pt_y = rect_bottom bounds \<rparr>,
                  mm_max = \<lparr> pt_x = pt_x centroid, pt_y = rect_top bounds \<rparr> \<rparr>
         else if direction = 270 then
           Some \<lparr> mm_min = \<lparr> pt_x = rect_left bounds, pt_y = pt_y centroid \<rparr>,
                  mm_max = \<lparr> pt_x = rect_right bounds, pt_y = pt_y centroid \<rparr> \<rparr>
         else None))"

text \<open>
  The region-level projection stores \<open>_dist2\<close> on the two points it keeps, so its points
  carry that property.
\<close>

record dpoint = point +
  dist2 :: real

record dminmax =
  dmin :: dpoint
  dmax :: dpoint

datatype js_error = TypeError | ZeroLengthSegment

definition distanceSquaredBetween :: "'a point_scheme \<Rightarrow> 'b point_scheme \<Rightarrow> real" where
  "distanceSquaredBetween a b = (pt_x b - pt_x a)\<^sup>2 + (pt_y b - pt_y a)\<^sup>2"

definition with_dist2 :: "point \<Rightarrow> real \<Rightarrow> dpoint" where
  "with_dist2 p d = \<lparr> pt_x = pt_x p, pt_y = pt_y p, dist2 = d \<rparr>"

text \<open>
  The loop \<open>for (let i = 1; i < nPolys; i += 1)\<close> over the remaining positive polygons.
  Reading \<open>.min\<close> of an \<open>undefined\<close> projection throws.
\<close>

fun region_axis_loop ::
  "'a host_geometry_scheme \<Rightarrow> polygon list \<Rightarrow> int \<Rightarrow> point \<Rightarrow> dminmax \<Rightarrow> js_error + dminmax" where
  "region_axis_loop lib [] direction c minMax = Inr minMax"
| "region_axis_loop lib (poly # polys) direction c minMax =
     (case minMaxPolygonPointsAlongAxis lib poly direction (Some c) of
        None \<Rightarrow> Inl TypeError
      | Some res \<Rightarrow>
          let res_min = with_dist2 (mm_min res) (distanceSquaredBetween (dmin minMax) c);
              res_max = with_dist2 (mm_max res) (distanceSquaredBetween (dmax minMax) c);
              minMax1 = (if dist2 res_min > dist2 (dmin minMax)
                         then minMax \<lparr> dmin := res_min \<rparr> else minMax);
              minMax2 = (if dist2 res_max > dist2 (dmax minMax1)
                         then minMax1 \<lparr> dmax := res_max \<rparr> else minMax1)
          in region_axis_loop lib polys direction c minMax2)"

text \<open>
  \<open>minMaxRegionPointsAlongAxis(region, direction)\<close>, the same text in both files.
  \<open>Inr None\<close> is the \<open>undefined\<close> returned for a region with no positive polygon.
\<close>

definition minMaxRegionPointsAlongAxis ::
  "'a host_geometry_scheme \<Rightarrow> region \<Rightarrow> int \<Rightarrow> js_error + dminmax option" where
  "minMaxRegionPointsAlongAxis lib rgn direction =
     (case filter isPositive (polygons rgn) of
        [] \<Rightarrow> Inr None
      | poly0 # polys \<Rightarrow>
          let c = rect_center (bounds rgn) in
          (case minMaxPolygonPointsAlongAxis lib poly0 direction (Some c) of
             None \<Rightarrow> Inl TypeError
           | Some mm \<Rightarrow>
               (case region_axis_loop lib polys direction c
                       \<lparr> dmin = with_dist2 (mm_min mm) (distanceSquaredBetween (mm_min mm) c),
                         dmax = with_dist2 (mm_max mm) (distanceSquaredBetween (mm_max mm) c) \<rparr> of
                  Inl e \<Rightarrow> Inl e
                | Inr r \<Rightarrow> Inr (Some r))))"

section \<open>The region elevation handler\<close>

text \<open>
  A \<open>RegionElevationHandler\<close> as its methods read it through \<open>this\<close>: the getters
  \<open>plateauElevation\<close>, \<open>rampFloor\<close>, \<open>rampDirection\<close> and \<open>rampStepSize\<close> (region flags),
  the result of \<open>isPlateau(region)\<close>, the cache \<open>#minMax\<close>, and the two properties
  \<open>algorithm\<close> and \<open>rampStepHeight\<close> that the methods read although the class declares no
  member of either name; \<open>None\<close> is the \<open>undefined\<close> such a read gives on an instance that
  nothing else has extended.
\<close>

record handler =
  h_region :: region
  h_isPlateau :: bool
  h_plateauElevation :: real
  h_rampFloor :: real
  h_rampDirection :: int
  h_rampStepSize :: real
  h_minMax_cache :: "dminmax option"
  h_algorithm :: "algorithm_choice option"
  h_rampStepHeight :: "real option"

text \<open>
  \<open>new RegionElevationHandler(region)\<close> for a region with the given flags: the cache is
  empty and the two undeclared properties are \<open>undefined\<close>.
\<close>

definition new_handler :: "region \<Rightarrow> bool \<Rightarrow> real \<Rightarrow> real \<Rightarrow> int \<Rightarrow> real \<Rightarrow> handler" where
  "new_handler rgn plateau elev fl direction stepSize =
     \<lparr> h_region = rgn, h_isPlateau = plateau, h_plateauElevation = elev, h_rampFloor = fl,
       h_rampDirection = direction, h_rampStepSize = stepSize, h_minMax_cache = None,
       h_algorithm = None, h_rampStepHeight = None \<rparr>"

text \<open>
  The getter \<open>minMax\<close>: the cached value when there is one, the projection of the region
  otherwise (the value it would also store).
\<close>

definition minMax :: "'a host_geometry_scheme \<Rightarrow> handler \<Rightarrow> js_error + dminmax option" where
  "minMax lib h =
     (case h_minMax_cache h of
        Some m \<Rightarrow> Inr (Some m)
      | None \<Rightarrow> minMaxRegionPointsAlongAxis lib (h_region h) (h_rampDirection h))"

text \<open>
  The host's \<open>foundry.utils.closestPointToSegment(c, a, b)\<close>, which throws for a segment
  of length zero (were it to return a point instead, the quotient formed next would be
  zero divided by zero), and \<open>PIXI.Point.distanceBetween\<close>.
\<close>

definition closestPointToSegment ::
  "real \<times> real \<Rightarrow> 'a point_scheme \<Rightarrow> 'b point_scheme \<Rightarrow> js_error + point" where
  "closestPointToSegment c a b =
     (let dx = pt_x b - pt_x a; dy = pt_y b - pt_y a in
      if dx = 0 \<and> dy = 0 then Inl ZeroLengthSegment
      else
        (let u = ((fst c - pt_x a) * dx + (snd c - pt_y a) * dy) / (dx * dx + dy * dy) in
         if u < 0 then Inr \<lparr> pt_x = pt_x a, pt_y = pt_y a \<rparr>
         else if u > 1 then Inr \<lparr> pt_x = pt_x b, pt_y = pt_y b \<rparr>
         else Inr \<lparr> pt_x = pt_x a + u * dx, pt_y = pt_y a + u * dy \<rparr>))"

definition distanceBetween :: "'a point_scheme \<Rightarrow> 'b point_scheme \<Rightarrow> real" where
  "distanceBetween a b = sqrt ((pt_x b - pt_x a)\<^sup>2 + (pt_y b - pt_y a)\<^sup>2)"

text \<open>\<open>Math.clamp(v, lo, hi)\<close> of the host.\<close>

definition clamp :: "real \<Rightarrow> real \<Rightarrow> real \<Rightarrow> real" where
  "clamp v lo hi = min (max v lo) hi"

definition js_floor :: "real \<Rightarrow> real" where
  "js_floor v = of_int \<lfloor>v\<rfloor>"

text \<open>
  \<open>#rampElevation(waypoint)\<close>. The quotient of the two distances is formed only after the
  host has accepted the segment from \<open>min\<close> to \<open>max\<close>, so its divisor is not zero.
\<close>

definition rampElevation :: "'a host_geometry_scheme \<Rightarrow> handler \<Rightarrow> waypoint \<Rightarrow> js_error + real" where
  "rampElevation lib h w =
     (case minMax lib h of
        Inl e \<Rightarrow> Inl e
      | Inr None \<Rightarrow> Inr (wp_elevation w)
      | Inr (Some mm) \<Rightarrow>
          (case closestPointToSegment (wp_x w, wp_y w) (dmin mm) (dmax mm) of
             Inl e \<Rightarrow> Inl e
           | Inr closestPt \<Rightarrow>
               let t0 = clamp (distanceBetween (dmin mm) closestPt
                                 / distanceBetween (dmin mm) (dmax mm)) 0 1;
                   rampFloor = h_rampFloor h;
                   plateauElevation = h_plateauElevation h;
                   delta = plateauElevation - rampFloor
               in if almostEqual t0 0 then Inr rampFloor
                  else if almostEqual t0 1 then Inr plateauElevation
                  else
                    (case h_rampStepHeight h of
                       None \<Rightarrow> Inr (js_round (rampFloor + t0 * delta))
                     | Some rampStepHeight \<Rightarrow>
                         if rampStepHeight = 0 then Inr (js_round (rampFloor + t0 * delta))
                         else Inr (js_round (rampFloor
                                 + js_floor (t0 * delta / rampStepHeight) * rampStepHeight)))))"

text \<open>
  \<open>elevationUponEntry(location)\<close>: the \<open>switch\<close> has no case for stairs and no default,
  so the result may be \<open>undefined\<close> (\<open>None\<close>).
\<close>

definition elevationUponEntry ::
  "'a host_geometry_scheme \<Rightarrow> handler \<Rightarrow> waypoint \<Rightarrow> js_error + real option" where
  "elevationUponEntry lib h location =
     (case h_algorithm h of
        Some NONE \<Rightarrow> Inr (Some (wp_elevation location))
      | Some PLATEAU \<Rightarrow> Inr (Some (h_plateauElevation h))
      | Some RAMP \<Rightarrow>
          (case rampElevation lib h location of Inl e \<Rightarrow> Inl e | Inr v \<Rightarrow> Inr (Some v))
      | _ \<Rightarrow> Inr None)"

text \<open>
  The plane of \<open>_plateauPlane()\<close>, as the arguments given to the constructors of the
  geometry library: a horizontal plane through one point, or the plane through three.
\<close>

type_synonym point3 = "real \<times> real \<times> real"

datatype plane = PlaneAt point3 | PlaneFromPoints point3 point3 point3

text \<open>
  The rest of the geometry library and the ground lookup are not among the sources either;
  they are inputs as well: the two unit conversions, the intersection of a plane with a
  segment (\<open>None\<close> where \<open>lineSegmentIntersects\<close> is false) and
  \<open>Region[MODULE_ID].nearestGroundElevation\<close>.
\<close>

record services = host_geometry +
  gridUnitsToPixels :: "real \<Rightarrow> real"
  pixelsToGridUnits :: "real \<Rightarrow> real"
  lineSegmentIntersection :: "plane \<Rightarrow> point3 \<Rightarrow> point3 \<Rightarrow> point3 option"
  nearestGroundElevation :: "waypoint \<Rightarrow> real"

definition plateauPlane :: "services \<Rightarrow> handler \<Rightarrow> js_error + plane" where
  "plateauPlane sv h =
     (if h_isPlateau h
      then Inr (PlaneAt (0, 0, gridUnitsToPixels sv (h_plateauElevation h)))
      else
        (case minMax sv h of
           Inl e \<Rightarrow> Inl e
         | Inr None \<Rightarrow> Inl TypeError
         | Inr (Some mm) \<Rightarrow>
             let mn = (pt_x (dmin mm), pt_y (dmin mm), gridUnitsToPixels sv (h_rampFloor h));
                 mx = (pt_x (dmax mm), pt_y (dmax mm),
                       gridUnitsToPixels sv (h_plateauElevation h));
                 dir_x = fst mx - fst mn;
                 dir_y = fst (snd mx) - fst (snd mn);
                 c = (fst mn + dir_y, fst (snd mn) + (- dir_x), snd (snd mn) + 0)
             in Inr (PlaneFromPoints mn mx c)))"

text \<open>\<open>Number.prototype.between(a, b)\<close> of the host, inclusive.\<close>

definition between :: "real \<Rightarrow> real \<Rightarrow> real \<Rightarrow> bool" where
  "between v a b \<longleftrightarrow> min a b \<le> v \<and> v \<le> max a b"

text \<open>
  The point returned by \<open>plateauSegmentIntersection\<close>; its elevation is whatever
  \<open>elevationUponEntry\<close> gave, which may be \<open>undefined\<close>.
\<close>

record located =
  loc_x :: real
  loc_y :: real
  loc_elevation :: "real option"

definition plateauSegmentIntersection ::
  "services \<Rightarrow> handler \<Rightarrow> waypoint \<Rightarrow> waypoint \<Rightarrow> js_error + located option" where
  "plateauSegmentIntersection sv h a b =
     (if regionWaypointsXYEqual a b then
        (let e = max (nearestGroundElevation sv a) (nearestGroundElevation sv b) in
         if between e (wp_elevation a) (wp_elevation b)
         then Inr (Some \<lparr> loc_x = wp_x a, loc_y = wp_y a, loc_elevation = Some e \<rparr>)
         else Inr None)
      else
        (case plateauPlane sv h of
           Inl e \<Rightarrow> Inl e
         | Inr p \<Rightarrow>
             (case lineSegmentIntersection sv p
                     (wp_x a, wp_y a, gridUnitsToPixels sv (wp_elevation a))
                     (wp_x b, wp_y b, gridUnitsToPixels sv (wp_elevation b)) of
                None \<Rightarrow> Inr None
              | Some ix \<Rightarrow>
                  (case elevationUponEntry sv h
                          \<lparr> wp_x = fst ix, wp_y = fst (snd ix),
                            wp_elevation = pixelsToGridUnits sv (snd (snd ix)) \<rparr> of
                     Inl e \<Rightarrow> Inl e
                   | Inr v \<Rightarrow>
                       Inr (Some \<lparr> loc_x = fst ix, loc_y = fst (snd ix), loc_elevation = v \<rparr>)))))"

section \<open>Notions used in the statements\<close>

text \<open>
  The segment immediately before index \<open>i\<close>, if there is one, and a segment with both of
  its elevations set to a floor.
\<close>

definition prev_segment :: "segments \<Rightarrow> nat \<Rightarrow> segment option" where
  "prev_segment segs i = (if i = 0 then None else segment_at segs (i - 1))"

definition at_floor :: "real \<Rightarrow> segment \<Rightarrow> segment" where
  "at_floor fl seg = seg \<lparr> seg_from := (seg_from seg) \<lparr> wp_elevation := fl \<rparr>,
                          seg_to := (seg_to seg) \<lparr> wp_elevation := fl \<rparr> \<rparr>"

text \<open>
  The step elevations of a ramp: \<open>e\<close> is \<open>fl\<close> plus a whole, non-negative number of steps
  of height \<open>s\<close>.
\<close>

definition on_step :: "real \<Rightarrow> real \<Rightarrow> real \<Rightarrow> bool" where
  "on_step fl s e \<longleftrightarrow> fl \<le> e \<and> js_floor ((e - fl) / s) * s = e - fl"


section \<open>Example inputs\<close>

abbreviation wpt :: "real \<Rightarrow> real \<Rightarrow> real \<Rightarrow> waypoint" where
  "wpt a b e \<equiv> \<lparr> wp_x = a, wp_y = b, wp_elevation = e \<rparr>"

abbreviation sgm :: "segment_type \<Rightarrow> waypoint \<Rightarrow> waypoint \<Rightarrow> segment option" where
  "sgm t a b \<equiv> Some \<lparr> seg_type = t, seg_from = a, seg_to = b \<rparr>"

text \<open>
  An enabled behavior of the given type and algorithm, whose two methods are the plateau's:
  the elevation is the configured one everywhere, and no segment meets the surface.
\<close>

definition elevation_behavior ::
  "string \<Rightarrow> algorithm_choice \<Rightarrow> real \<Rightarrow> real \<Rightarrow> bool \<Rightarrow> behavior" where
  "elevation_behavior ty alg elev fl r =
     \<lparr> btype = ty, disabled = False,
       system = \<lparr> algorithm = alg, sys_elevation = elev, sys_floor = fl, reset = r,
                  sys_plateauElevation = (\<lambda>w. elev),
                  sys_plateauSegmentIntersection = (\<lambda>a b. None) \<rparr> \<rparr>"

text \<open>
  An enabled ramp behavior whose elevation at a waypoint is ten times its x, whatever the
  waypoint's own elevation, and whose surface no segment meets.
\<close>

definition slope_behavior :: "bool \<Rightarrow> behavior" where
  "slope_behavior r =
     \<lparr> btype = ''terrainmapper.setElevation'', disabled = False,
       system = \<lparr> algorithm = RAMP, sys_elevation = 30, sys_floor = 0, reset = r,
                  sys_plateauElevation = (\<lambda>w. 10 * wp_x w),
                  sys_plateauSegmentIntersection = (\<lambda>a b. None) \<rparr> \<rparr>"

text \<open>An axis-aligned rectangle as a positive polygon, and the region made of it.\<close>

definition rect_polygon :: "real \<Rightarrow> real \<Rightarrow> real \<Rightarrow> real \<Rightarrow> polygon" where
  "rect_polygon x0 y0 x1 y1 =
     \<lparr> points = [(x0, y0), (x1, y0), (x1, y1), (x0, y1)], isPositive = True,
       center = \<lparr> pt_x = (x0 + x1) / 2, pt_y = (y0 + y1) / 2 \<rparr> \<rparr>"

definition rect_region :: "real \<Rightarrow> real \<Rightarrow> real \<Rightarrow> real \<Rightarrow> region" where
  "rect_region x0 y0 x1 y1 =
     \<lparr> polygons = [rect_polygon x0 y0 x1 y1],
       bounds = \<lparr> rect_x = x0, rect_y = y0, rect_width = x1 - x0, rect_height = y1 - y0 \<rparr> \<rparr>"

text \<open>
  Two disjoint squares, one above the other; the region's bounds run from (4, 0) to
  (6, 6), so its centre is (5, 3).
\<close>

definition two_squares :: region where
  "two_squares =
     \<lparr> polygons = [rect_polygon 4 4 6 6, rect_polygon 4 0 6 2],
       bounds = \<lparr> rect_x = 4, rect_y = 0, rect_width = 2, rect_height = 6 \<rparr> \<rparr>"

text \<open>
  Host services for the examples: a ground lookup that answers 5 everywhere, 20 pixels to
  the grid unit, a plane intersection that finds nothing, and a rotation computed without
  rounding. No statement below depends on the values this rotation computes.
\<close>

definition flat_ground :: services where
  "flat_ground =
     \<lparr> toRadians = (\<lambda>d. of_int d * (pi / 180)),
       matrixRotate = (\<lambda>r c p. ((fst p - pt_x c) * cos r - (snd p - pt_y c) * sin r + pt_x c,
                               (fst p - pt_x c) * sin r + (snd p - pt_y c) * cos r + pt_y c)),
       gridUnitsToPixels = (\<lambda>e. e * 20), pixelsToGridUnits = (\<lambda>z. z / 20),
       lineSegmentIntersection = (\<lambda>p a b. None), nearestGroundElevation = (\<lambda>w. 5) \<rparr>"

section \<open>Evaluation rules and list facts\<close>

lemmas scan_defs =
  modifySegmentsForPlateau_def modifySegmentsForStairs_def modifySegmentsForRamp_def
  plateau_loop.simps stairs_loop.simps ramp_loop.simps
  plateau_step_def stairs_step_def ramp_step_def advance_def segment_at_def
  splice_insert_def splice_replace2_def constructVerticalMoveSegment_def
  insertVerticalMoveToTerrainFloor_def setElevation_type_def MODULE_ID_def
  terrainFloor_of_def elevation_behavior_def midE_def js_round_def
  regionWaypointsXYEqual_def regionWaypointsEqual_def almostEqual_def
  prev_segment_def at_floor_def Let_def

lemmas axis_defs =
  minMaxRegionPointsAlongAxis_def minMaxPolygonPointsAlongAxis_def getBounds_def
  rect_center_def rect_top_def rect_bottom_def rect_left_def rect_right_def js_rem_def
  distanceSquaredBetween_def with_dist2_def rect_polygon_def rect_region_def Let_def

lemmas ramp_defs =
  rampElevation_def minMax_def new_handler_def closestPointToSegment_def distanceBetween_def
  clamp_def almostEqual_def js_round_def js_floor_def

lemma segment_at_SomeD:
  "segment_at segs i = Some s \<Longrightarrow> i < length segs \<and> segs ! i = Some s"
  by (simp add: segment_at_def split: if_splits)

lemma segment_at_update_same: "i < length segs \<Longrightarrow> segment_at (segs [i := v]) i = v"
  by (simp add: segment_at_def)

lemma length_splice_insert: "length (splice_insert i v segs) = Suc (length segs)"
  by (simp add: splice_insert_def)

lemma segment_at_splice_insert_here:
  "i \<le> length segs \<Longrightarrow> segment_at (splice_insert i v segs) i = Some v"
  by (simp add: segment_at_def splice_insert_def nth_append)


lemma segment_at_splice_insert_after:
  "i \<le> length segs \<Longrightarrow> segment_at (splice_insert i v segs) (Suc i) = segment_at segs i"
  by (auto simp add: segment_at_def splice_insert_def nth_append)


lemma insertVertical_none_added:
  assumes "segment_at segs i = Some seg"
    and "case prev_segment segs i of None \<Rightarrow> True | Some p \<Rightarrow> wp_elevation (seg_to p) = fl"
  shows "insertVerticalMoveToTerrainFloor i segs fl = (segs [i := Some (at_floor fl seg)], 0)"
  using assms
  by (auto simp: insertVerticalMoveToTerrainFloor_def Let_def prev_segment_def at_floor_def
        segment_at_def split: option.splits if_splits)

lemma insertVertical_one_added:
  assumes "segment_at segs i = Some seg"
    and "prev_segment segs i = Some p" and "wp_elevation (seg_to p) \<noteq> fl"
  shows "insertVerticalMoveToTerrainFloor i segs fl =
           (splice_insert i (constructVerticalMoveSegment (seg_to p) fl)
              (segs [i := Some (at_floor fl seg)]), 1)"
  using assms
  by (auto simp: insertVerticalMoveToTerrainFloor_def Let_def prev_segment_def at_floor_def
        segment_at_def split: option.splits if_splits)






section \<open>The region projection keeps the first polygon\<close>

text \<open>
  Inside the loop over the later polygons, the distance stored on a new candidate is
  measured from the point currently kept, not from the candidate. The two compared numbers
  are therefore equal, the strict comparison fails, and the kept points never change.
\<close>

lemma region_axis_loop_keeps:
  assumes "dist2 (dmin mm) = distanceSquaredBetween (dmin mm) c"
    and "dist2 (dmax mm) = distanceSquaredBetween (dmax mm) c"
    and "region_axis_loop lib polys direction c mm = Inr r"
  shows "r = mm"
  using assms
  by (induction polys) (auto simp: Let_def with_dist2_def split: option.splits)

lemma region_axis_first_polygon_only:
  assumes "minMaxRegionPointsAlongAxis lib rgn direction = Inr (Some r)"
  shows "\<exists>poly0 polys mm.
           filter isPositive (polygons rgn) = poly0 # polys
           \<and> minMaxPolygonPointsAlongAxis lib poly0 direction (Some (rect_center (bounds rgn)))
               = Some mm
           \<and> r = \<lparr> dmin = with_dist2 (mm_min mm)
                              (distanceSquaredBetween (mm_min mm) (rect_center (bounds rgn))),
                    dmax = with_dist2 (mm_max mm)
                              (distanceSquaredBetween (mm_max mm) (rect_center (bounds rgn))) \<rparr>"
  using assms
  by (auto simp: minMaxRegionPointsAlongAxis_def Let_def with_dist2_def distanceSquaredBetween_def
        split: list.splits option.splits sum.splits dest!: region_axis_loop_keeps [rotated 2])

text \<open>
  Claim C1. For a region of two or more positive polygons, the projection is said to keep,
  for min and for max independently, the candidate farther from the shared centre, so that
  a farther point of a later polygon replaces the first polygon's.
  The code does not do this. For the two squares, direction 0, the first square gives
  min (5, 4) at squared distance 1 from the centre (5, 3); the second square's min
  candidate (5, 0) lies at squared distance 9, yet the result keeps (5, 4).
\<close>

theorem region_axis_later_polygon_ignored:
  "minMaxRegionPointsAlongAxis lib two_squares 0
     = Inr (Some \<lparr> dmin = \<lparr> pt_x = 5, pt_y = 4, dist2 = 1 \<rparr>,
                    dmax = \<lparr> pt_x = 5, pt_y = 6, dist2 = 9 \<rparr> \<rparr>)
   \<and> minMaxPolygonPointsAlongAxis lib (rect_polygon 4 0 6 2) 0
         (Some (rect_center (bounds two_squares)))
     = Some \<lparr> mm_min = \<lparr> pt_x = 5, pt_y = 0 \<rparr>, mm_max = \<lparr> pt_x = 5, pt_y = 2 \<rparr> \<rparr>
   \<and> distanceSquaredBetween \<lparr> pt_x = 5, pt_y = 0 \<rparr> (rect_center (bounds two_squares)) = 9"
  by (simp add: axis_defs two_squares_def power2_eq_square)

section \<open>The stairs threshold\<close>

text \<open>The comparison the scan makes on ENTER.\<close>

lemma stairs_enter_target:
  assumes "segment_at (segments st) (idx st) = Some seg" and "seg_type seg = ENTER"
  shows "targetElevation (stairs_step b terrainFloor st) =
           (if wp_elevation (seg_from seg)
                 \<le> js_round ((sys_elevation (system b) - sys_floor (system b)) * (1 / 2))
            then sys_elevation (system b) else sys_floor (system b))"
  using assms by (simp add: stairs_step_def midE_def Let_def)

text \<open>With top 30 and floor 0 the threshold is 15: entry at 10 goes up to 30, at 20 down to 0.\<close>

lemma stairs_example_floor_zero:
  "modifySegmentsForStairs
     [sgm ENTER (wpt 0 0 10) (wpt 1 0 10), sgm MOVE (wpt 1 0 10) (wpt 2 0 10)]
     (elevation_behavior ''terrainmapper.setElevation'' STAIRS 30 0 False) None
   = [sgm ENTER (wpt 0 0 10) (wpt 1 0 10), sgm MOVE (wpt 1 0 30) (wpt 2 0 30)]
   \<and> modifySegmentsForStairs
     [sgm ENTER (wpt 0 0 20) (wpt 1 0 20), sgm MOVE (wpt 1 0 20) (wpt 2 0 20)]
     (elevation_behavior ''terrainmapper.setElevation'' STAIRS 30 0 False) None
   = [sgm ENTER (wpt 0 0 20) (wpt 1 0 20), sgm MOVE (wpt 1 0 0) (wpt 2 0 0)]"
  by (simp add: scan_defs)

text \<open>
  Claim C2. On ENTER the stairs target is the top when the entry elevation is at or below
  the midpoint \<open>round((top - floor) / 2)\<close> relative to the floor, and the floor otherwise.
  The code compares the entry elevation itself with the half height, never adding the
  floor. With floor 10 and top 30 the midpoint lies 10 above the floor, at 20; a token
  entering at 15 is below it, yet the code compares 15 with 10 and sends it down to the
  floor: the MOVE inside the region comes out at elevation 10, not 30.
\<close>

theorem stairs_threshold_ignores_floor:
  "modifySegmentsForStairs
     [sgm ENTER (wpt 0 0 15) (wpt 1 0 15), sgm MOVE (wpt 1 0 15) (wpt 2 0 15)]
     (elevation_behavior ''terrainmapper.setElevation'' STAIRS 30 10 False) None
   = [sgm ENTER (wpt 0 0 15) (wpt 1 0 15), sgm MOVE (wpt 1 0 10) (wpt 2 0 10)]"
  by (simp add: scan_defs)

theorem stairs_threshold_ignores_floor_witness:
  "btype (elevation_behavior ''terrainmapper.setElevation'' STAIRS 30 10 False) = setElevation_type
   \<and> \<not> disabled (elevation_behavior ''terrainmapper.setElevation'' STAIRS 30 10 False)
   \<and> algorithm (system (elevation_behavior ''terrainmapper.setElevation'' STAIRS 30 10 False))
       = STAIRS
   \<and> (15::real) \<le> 10 + js_round ((30 - 10) * (1 / 2))
   \<and> segment_at (modifySegmentsForStairs
         [sgm ENTER (wpt 0 0 15) (wpt 1 0 15), sgm MOVE (wpt 1 0 15) (wpt 2 0 15)]
         (elevation_behavior ''terrainmapper.setElevation'' STAIRS 30 10 False) None) 1
       = sgm MOVE (wpt 1 0 10) (wpt 2 0 10)"
  using stairs_threshold_ignores_floor
  by (simp add: elevation_behavior_def setElevation_type_def MODULE_ID_def js_round_def
        segment_at_def)

section \<open>What the plateau scan has passed stays as it is\<close>

text \<open>
  A step of the plateau scan changes the list only at and after the scan index, and the
  index never moves back. So whatever the scan returns agrees with the list as it stood
  when an index was passed, up to that index. Without freefall no segment is split and
  the scan always returns.
\<close>

lemma take_splice_insert:
  "j \<le> i \<Longrightarrow> j \<le> length segs \<Longrightarrow> take j (splice_insert i v segs) = take j segs"
  by (simp add: splice_insert_def min_def)

lemma take_splice_replace2:
  "j \<le> i \<Longrightarrow> j \<le> length segs \<Longrightarrow> take j (splice_replace2 i a c segs) = take j segs"
  by (simp add: splice_replace2_def min_def)

lemma insertVertical_frame:
  "take i (fst (insertVerticalMoveToTerrainFloor i segs fl)) = take i segs"
  by (auto simp: insertVerticalMoveToTerrainFloor_def Let_def take_splice_insert
        split: option.splits dest: segment_at_SomeD)

lemma plateau_step_frame:
  "idx st \<le> idx (plateau_step b freefall terrainFloor st)
   \<and> take (idx st) (segments (plateau_step b freefall terrainFloor st))
       = take (idx st) (segments st)"
proof (cases "segment_at (segments st) (idx st)")
  case None
  then show ?thesis by (simp add: plateau_step_def Let_def)
next
  case (Some seg)
  then have i: "idx st < length (segments st)" by (auto dest: segment_at_SomeD)
  show ?thesis
  proof (cases "seg_type seg")
    case ENTER
    with Some i show ?thesis by (simp add: plateau_step_def Let_def take_splice_insert)
  next
    case MOVE
    with Some i show ?thesis
      by (simp add: plateau_step_def Let_def take_splice_replace2 split: option.splits)
  next
    case EXIT
    with Some i show ?thesis by (simp add: plateau_step_def Let_def insertVertical_frame)
  qed
qed

lemma plateau_loop_keeps_scanned_prefix:
  assumes "plateau_loop b freefall terrainFloor st = Some r"
  shows "take (idx st) r = take (idx st) (segments st)"
proof (rule plateau_loop.raw_induct
    [where P = "\<lambda>b freefall terrainFloor st r. take (idx st) r = take (idx st) (segments st)",
     OF _ assms])
  fix f b freefall terrainFloor and st :: scan and r
  assume IH: "\<And>b freefall terrainFloor st y. f b freefall terrainFloor st = Some y \<Longrightarrow>
                take (idx st) y = take (idx st) (segments st)"
    and eq: "(if idx st < len st
              then f b freefall terrainFloor (advance (plateau_step b freefall terrainFloor st))
              else Some (segments st)) = Some r"
  show "take (idx st) r = take (idx st) (segments st)"
  proof (cases "idx st < len st")
    case False
    with eq show ?thesis by simp
  next
    case True
    let ?st' = "advance (plateau_step b freefall terrainFloor st)"
    from True eq have "f b freefall terrainFloor ?st' = Some r" by simp
    then have ih: "take (idx ?st') r = take (idx ?st') (segments ?st')" by (rule IH)
    have le: "idx st \<le> idx ?st'"
      using plateau_step_frame [of st b freefall terrainFloor] by (simp add: advance_def)
    have "take (idx st) r = take (idx st) (take (idx ?st') r)"
      using le by (simp add: min_def)
    also have "\<dots> = take (idx st) (segments ?st')"
      using le by (simp add: ih min_def)
    also have "\<dots> = take (idx st) (segments st)"
      using plateau_step_frame [of st b freefall terrainFloor] by (simp add: advance_def)
    finally show ?thesis .
  qed
qed

lemma prefix_segment_at:
  assumes "take n r = take n xs" and "j < n" and "j < length xs"
  shows "segment_at r j = segment_at xs j"
proof -
  from assms have "j < length (take n xs)" by simp
  with assms(1) have "j < length (take n r)" by simp
  then have jr: "j < length r" by simp
  have "r ! j = take n r ! j" using assms(2) by simp
  also have "\<dots> = take n xs ! j" by (simp only: assms(1))
  also have "\<dots> = xs ! j" using assms(2) by simp
  finally show ?thesis using jr assms(3) by (simp add: segment_at_def)
qed



lemma plateau_exit_step:
  assumes "segment_at (segments st) (idx st) = Some seg" and "seg_type seg = EXIT"
    and "reset (system b)"
    and "freefall \<or> (entered st \<and> sys_elevation (system b) \<noteq> wp_elevation (seg_from seg))"
  shows "plateau_step b freefall terrainFloor st =
      st \<lparr> segments := fst (insertVerticalMoveToTerrainFloor (idx st) (segments st) terrainFloor),
           idx := idx st + snd (insertVerticalMoveToTerrainFloor (idx st) (segments st) terrainFloor),
           len := len st + snd (insertVerticalMoveToTerrainFloor (idx st) (segments st) terrainFloor),
           entered := False \<rparr>"
  using assms by (simp add: plateau_step_def Let_def)

lemma plateau_exit_in_result:
  assumes "plateau_loop b freefall terrainFloor st = Some r"
    and "idx st < len st"
    and "segment_at (segments st) (idx st) = Some seg" and "seg_type seg = EXIT"
    and "reset (system b)"
    and "freefall \<or> (entered st \<and> sys_elevation (system b) \<noteq> wp_elevation (seg_from seg))"
  shows "case prev_segment (segments st) (idx st) of
           None \<Rightarrow> segment_at r (idx st) = Some (at_floor terrainFloor seg)
         | Some p \<Rightarrow>
             if wp_elevation (seg_to p) = terrainFloor
             then segment_at r (idx st) = Some (at_floor terrainFloor seg)
             else segment_at r (idx st)
                    = Some (constructVerticalMoveSegment (seg_to p) terrainFloor)
                  \<and> segment_at r (idx st + 1) = Some (at_floor terrainFloor seg)"
proof -
  let ?segs = "segments st" and ?i = "idx st"
  let ?ins = "insertVerticalMoveToTerrainFloor ?i ?segs terrainFloor"
  let ?st' = "advance (plateau_step b freefall terrainFloor st)"
  from assms(3) have i: "?i < length ?segs"
    by (simp add: segment_at_def split: if_splits)
  have st': "segments ?st' = fst ?ins" "idx ?st' = ?i + snd ?ins + 1"
    by (simp_all add: plateau_exit_step [OF assms(3,4,5,6)] advance_def)
  from assms(1,2) have "plateau_loop b freefall terrainFloor ?st' = Some r"
    by (subst (asm) plateau_loop.simps) simp
  then have "take (idx ?st') r = take (idx ?st') (segments ?st')"
    by (rule plateau_loop_keeps_scanned_prefix)
  then have t: "take (?i + snd ?ins + 1) r = take (?i + snd ?ins + 1) (fst ?ins)"
    by (simp only: st')
  show ?thesis
  proof (cases "case prev_segment ?segs ?i of None \<Rightarrow> True
                | Some p \<Rightarrow> wp_elevation (seg_to p) = terrainFloor")
    case True
    have ins: "?ins = (?segs [?i := Some (at_floor terrainFloor seg)], 0)"
      by (rule insertVertical_none_added [OF assms(3) True])
    have "segment_at r ?i = segment_at (?segs [?i := Some (at_floor terrainFloor seg)]) ?i"
      using i t by (intro prefix_segment_at [where n = "?i + 1"]) (simp_all add: ins)
    then have "segment_at r ?i = Some (at_floor terrainFloor seg)"
      using i by (simp add: segment_at_update_same)
    with True show ?thesis by (auto split: option.splits)
  next
    case False
    then obtain p where p: "prev_segment ?segs ?i = Some p"
      and ne: "wp_elevation (seg_to p) \<noteq> terrainFloor"
      by (auto split: option.splits)
    let ?xs = "splice_insert ?i (constructVerticalMoveSegment (seg_to p) terrainFloor)
                 (?segs [?i := Some (at_floor terrainFloor seg)])"
    have ins: "?ins = (?xs, 1)"
      by (rule insertVertical_one_added [OF assms(3) p ne])
    from t have t2: "take (?i + 2) r = take (?i + 2) ?xs" by (simp add: ins)
    have "segment_at r ?i = segment_at ?xs ?i"
      using i by (intro prefix_segment_at [OF t2]) (simp_all add: length_splice_insert)
    moreover have "segment_at r (?i + 1) = segment_at ?xs (?i + 1)"
      using i by (intro prefix_segment_at [OF t2]) (simp_all add: length_splice_insert)
    ultimately show ?thesis
      using i p ne
      by (simp add: segment_at_splice_insert_here segment_at_splice_insert_after
            segment_at_update_same)
  qed
qed

lemma plateau_step_measure:
  assumes "\<not> freefall"
  shows "len (plateau_step b freefall terrainFloor st) - idx (plateau_step b freefall terrainFloor st)
           = len st - idx st"
  using assms
  by (simp add: plateau_step_def Let_def split: option.splits segment_type.splits)

lemma plateau_loop_returns_without_freefall:
  "\<exists>r. plateau_loop b False terrainFloor st = Some r"
proof (induction "len st - idx st" arbitrary: st rule: less_induct)
  case less
  show ?case
  proof (cases "idx st < len st")
    case False
    then show ?thesis by (subst plateau_loop.simps) simp
  next
    case True
    let ?st' = "advance (plateau_step b False terrainFloor st)"
    have "len ?st' - idx ?st' < len st - idx st"
      using True plateau_step_measure [of False b terrainFloor st, simplified]
      by (simp add: advance_def)
    then obtain r where "plateau_loop b False terrainFloor ?st' = Some r"
      using less by blast
    then show ?thesis using True by (subst plateau_loop.simps) simp
  qed
qed

section \<open>Plateau: leaving with reset\<close>

text \<open>The usual crossing: raised after ENTER, dropped before EXIT.\<close>

lemma plateau_example_run:
  "modifySegmentsForPlateau
     [sgm ENTER (wpt 0 0 0) (wpt 1 0 0), sgm MOVE (wpt 1 0 0) (wpt 2 0 0),
      sgm EXIT (wpt 2 0 0) (wpt 3 0 0)]
     (elevation_behavior ''terrainmapper.setElevation'' PLATEAU 10 0 True) False None
   = Some [sgm ENTER (wpt 0 0 0) (wpt 1 0 0), sgm MOVE (wpt 1 0 0) (wpt 1 0 10),
           sgm MOVE (wpt 1 0 10) (wpt 2 0 10), sgm MOVE (wpt 2 0 10) (wpt 2 0 0),
           sgm EXIT (wpt 2 0 0) (wpt 3 0 0)]"
  by (simp add: scan_defs)

text \<open>
  Claim C3, as stated: with \<open>reset\<close>, a path whose scan reaches EXIT after the token was
  raised ends at the terrain floor, the EXIT segment's elevations being set to the floor.
  It fails for a path that climbs to the plateau elevation by itself inside the region: the
  token is raised after ENTER, but the EXIT segment starts at the plateau elevation, the
  test \<open>elevation !== segment.from.elevation\<close> is false, and the EXIT is left at elevation
  10 with no move down.
\<close>

theorem plateau_reset_skipped_counterexample:
  "modifySegmentsForPlateau
     [sgm ENTER (wpt 0 0 0) (wpt 1 0 0), sgm MOVE (wpt 1 0 0) (wpt 2 0 10),
      sgm EXIT (wpt 2 0 10) (wpt 3 0 10)]
     (elevation_behavior ''terrainmapper.setElevation'' PLATEAU 10 0 True) False (Some 0)
   = Some [sgm ENTER (wpt 0 0 0) (wpt 1 0 0), sgm MOVE (wpt 1 0 0) (wpt 1 0 10),
           sgm MOVE (wpt 1 0 10) (wpt 2 0 10), sgm EXIT (wpt 2 0 10) (wpt 3 0 10)]"
  by (simp add: scan_defs)

text \<open>
  Claim C3, amended. With \<open>reset\<close>, when the scan is at an EXIT segment and either
  freefall is on, or the scan has entered and the EXIT segment's own start elevation
  differs from the plateau elevation, then: the EXIT segment's two elevations become the
  terrain floor; no segment is added when the segment before it already ends at the floor
  (or there is none), and otherwise exactly one vertical MOVE, from the end of that segment
  down to the floor, is spliced in just before the EXIT; nothing else in the list changes.
  Whatever list the scan then returns holds these segments at these places.
\<close>

theorem plateau_exit_reset_to_terrain_floor:
  assumes "segment_at (segments st) (idx st) = Some seg" and "seg_type seg = EXIT"
    and "reset (system b)"
  shows "(freefall \<or> (entered st \<and> sys_elevation (system b) \<noteq> wp_elevation (seg_from seg)) \<longrightarrow>
           (let st' = plateau_step b freefall terrainFloor st;
                k = (case prev_segment (segments st) (idx st) of
                       None \<Rightarrow> 0
                     | Some p \<Rightarrow> if wp_elevation (seg_to p) = terrainFloor then 0 else 1) in
            length (segments st') = length (segments st) + k
            \<and> segment_at (segments st') (idx st + k) = Some (at_floor terrainFloor seg)
            \<and> (k = 1 \<longrightarrow> (case prev_segment (segments st) (idx st) of
                             None \<Rightarrow> False
                           | Some p \<Rightarrow> segment_at (segments st') (idx st)
                                        = Some (constructVerticalMoveSegment (seg_to p) terrainFloor)))
            \<and> take (idx st) (segments st') = take (idx st) (segments st)
            \<and> drop (idx st + k + 1) (segments st') = drop (idx st + 1) (segments st)
            \<and> idx st' = idx st + k \<and> len st' = len st + k \<and> \<not> entered st'))
       \<and> (freefall \<or> (entered st \<and> sys_elevation (system b) \<noteq> wp_elevation (seg_from seg)) \<longrightarrow>
            idx st < len st \<longrightarrow> plateau_loop b freefall terrainFloor st = Some r \<longrightarrow>
            (case prev_segment (segments st) (idx st) of
               None \<Rightarrow> segment_at r (idx st) = Some (at_floor terrainFloor seg)
             | Some p \<Rightarrow>
                 if wp_elevation (seg_to p) = terrainFloor
                 then segment_at r (idx st) = Some (at_floor terrainFloor seg)
                 else segment_at r (idx st)
                        = Some (constructVerticalMoveSegment (seg_to p) terrainFloor)
                      \<and> segment_at r (idx st + 1) = Some (at_floor terrainFloor seg)))"
proof -
  let ?segs = "segments st" and ?i = "idx st"
  from assms(1) have i: "?i < length ?segs" by (auto dest: segment_at_SomeD)
  let ?g = "freefall \<or> (entered st \<and> sys_elevation (system b) \<noteq> wp_elevation (seg_from seg))"
  note step = plateau_exit_step [OF assms]
  have result: "?g \<Longrightarrow> idx st < len st \<Longrightarrow> plateau_loop b freefall terrainFloor st = Some r \<Longrightarrow>
            (case prev_segment (segments st) (idx st) of
               None \<Rightarrow> segment_at r (idx st) = Some (at_floor terrainFloor seg)
             | Some p \<Rightarrow>
                 if wp_elevation (seg_to p) = terrainFloor
                 then segment_at r (idx st) = Some (at_floor terrainFloor seg)
                 else segment_at r (idx st)
                        = Some (constructVerticalMoveSegment (seg_to p) terrainFloor)
                      \<and> segment_at r (idx st + 1) = Some (at_floor terrainFloor seg))"
    by (rule plateau_exit_in_result [OF _ _ assms])
  have reset_case: "?g \<Longrightarrow>
           (let st' = plateau_step b freefall terrainFloor st;
                k = (case prev_segment (segments st) (idx st) of
                       None \<Rightarrow> 0
                     | Some p \<Rightarrow> if wp_elevation (seg_to p) = terrainFloor then 0 else 1) in
            length (segments st') = length (segments st) + k
            \<and> segment_at (segments st') (idx st + k) = Some (at_floor terrainFloor seg)
            \<and> (k = 1 \<longrightarrow> (case prev_segment (segments st) (idx st) of
                             None \<Rightarrow> False
                           | Some p \<Rightarrow> segment_at (segments st') (idx st)
                                        = Some (constructVerticalMoveSegment (seg_to p) terrainFloor)))
            \<and> take (idx st) (segments st') = take (idx st) (segments st)
            \<and> drop (idx st + k + 1) (segments st') = drop (idx st + 1) (segments st)
            \<and> idx st' = idx st + k \<and> len st' = len st + k \<and> \<not> entered st')"
  proof -
    assume g: ?g
    show ?thesis
    proof (cases "case prev_segment ?segs ?i of None \<Rightarrow> True
                  | Some p \<Rightarrow> wp_elevation (seg_to p) = terrainFloor")
      case True
      then have k0: "(case prev_segment ?segs ?i of None \<Rightarrow> 0
                     | Some p \<Rightarrow> if wp_elevation (seg_to p) = terrainFloor then 0 else 1) = (0::nat)"
        by (auto split: option.splits)
      show ?thesis
        using i
        by (simp add: step [OF g] insertVertical_none_added [OF assms(1) True] k0 Let_def
              segment_at_update_same)
    next
      case False
      then obtain p where p: "prev_segment ?segs ?i = Some p"
        and ne: "wp_elevation (seg_to p) \<noteq> terrainFloor"
        by (auto split: option.splits)
      have ins: "insertVerticalMoveToTerrainFloor ?i ?segs terrainFloor =
           (splice_insert ?i (constructVerticalMoveSegment (seg_to p) terrainFloor)
              (?segs [?i := Some (at_floor terrainFloor seg)]), 1)"
        by (rule insertVertical_one_added [OF assms(1) p ne])
      show ?thesis
        using i ne
        by (simp add: step [OF g] ins p Let_def length_splice_insert
              segment_at_splice_insert_here segment_at_splice_insert_after segment_at_update_same)
           (simp add: splice_insert_def)
    qed
  qed
  show ?thesis using reset_case result by blast
qed

theorem plateau_exit_reset_witness:
  "segment_at [sgm ENTER (wpt 0 0 0) (wpt 1 0 0), sgm MOVE (wpt 1 0 0) (wpt 1 0 10),
               sgm MOVE (wpt 1 0 10) (wpt 2 0 10), sgm EXIT (wpt 2 0 0) (wpt 3 0 0)] 3
     = sgm EXIT (wpt 2 0 0) (wpt 3 0 0)
   \<and> reset (system (elevation_behavior ''terrainmapper.setElevation'' PLATEAU 10 0 True))
   \<and> sys_elevation (system (elevation_behavior ''terrainmapper.setElevation'' PLATEAU 10 0 True))
       \<noteq> wp_elevation (wpt 2 0 0)
   \<and> plateau_step (elevation_behavior ''terrainmapper.setElevation'' PLATEAU 10 0 True) False 0
       \<lparr> segments = [sgm ENTER (wpt 0 0 0) (wpt 1 0 0), sgm MOVE (wpt 1 0 0) (wpt 1 0 10),
                     sgm MOVE (wpt 1 0 10) (wpt 2 0 10), sgm EXIT (wpt 2 0 0) (wpt 3 0 0)],
         idx = 3, len = 4, entered = True \<rparr>
     = \<lparr> segments = [sgm ENTER (wpt 0 0 0) (wpt 1 0 0), sgm MOVE (wpt 1 0 0) (wpt 1 0 10),
                     sgm MOVE (wpt 1 0 10) (wpt 2 0 10), sgm MOVE (wpt 2 0 10) (wpt 2 0 0),
                     sgm EXIT (wpt 2 0 0) (wpt 3 0 0)],
         idx = 4, len = 5, entered = False \<rparr>
   \<and> plateau_loop (elevation_behavior ''terrainmapper.setElevation'' PLATEAU 10 0 True) False 0
       \<lparr> segments = [sgm ENTER (wpt 0 0 0) (wpt 1 0 0), sgm MOVE (wpt 1 0 0) (wpt 1 0 10),
                     sgm MOVE (wpt 1 0 10) (wpt 2 0 10), sgm EXIT (wpt 2 0 0) (wpt 3 0 0)],
         idx = 3, len = 4, entered = True \<rparr>
     = Some [sgm ENTER (wpt 0 0 0) (wpt 1 0 0), sgm MOVE (wpt 1 0 0) (wpt 1 0 10),
             sgm MOVE (wpt 1 0 10) (wpt 2 0 10), sgm MOVE (wpt 2 0 10) (wpt 2 0 0),
             sgm EXIT (wpt 2 0 0) (wpt 3 0 0)]"
  using plateau_exit_reset_to_terrain_floor
      [of "\<lparr> segments = [sgm ENTER (wpt 0 0 0) (wpt 1 0 0), sgm MOVE (wpt 1 0 0) (wpt 1 0 10),
                     sgm MOVE (wpt 1 0 10) (wpt 2 0 10), sgm EXIT (wpt 2 0 0) (wpt 3 0 0)],
             idx = 3, len = 4, entered = True \<rparr>"
          "\<lparr> seg_type = EXIT, seg_from = wpt 2 0 0, seg_to = wpt 3 0 0 \<rparr>"
          "elevation_behavior ''terrainmapper.setElevation'' PLATEAU 10 0 True" False 0
          "[sgm ENTER (wpt 0 0 0) (wpt 1 0 0), sgm MOVE (wpt 1 0 0) (wpt 1 0 10),
            sgm MOVE (wpt 1 0 10) (wpt 2 0 10), sgm MOVE (wpt 2 0 10) (wpt 2 0 0),
            sgm EXIT (wpt 2 0 0) (wpt 3 0 0)]"]
  by (simp add: scan_defs)

text \<open>
  When freefall is off and the scan has not entered, or the EXIT segment starts at the
  plateau elevation, the step only clears \<open>entered\<close>.
\<close>

lemma plateau_exit_reset_skipped:
  assumes "segment_at (segments st) (idx st) = Some seg" and "seg_type seg = EXIT"
    and "reset (system b)"
    and "\<not> (freefall \<or> (entered st \<and> sys_elevation (system b) \<noteq> wp_elevation (seg_from seg)))"
  shows "plateau_step b freefall terrainFloor st = st \<lparr> entered := False \<rparr>"
  using assms by (simp add: plateau_step_def Let_def)

section \<open>Running an adjuster twice\<close>


text \<open>
  A move down to the terrain floor spliced in before an EXIT is repeated in the same way:
  for the second run it is a MOVE inside the region, which lifts its end back to the
  target, and a further move down is inserted. This happens for a plateau and for stairs
  with \<open>reset\<close>; and a ramp repeats the vertical move after ENTER as a plateau does.
\<close>

lemma plateau_reset_second_run:
  "modifySegmentsForPlateau
     [sgm ENTER (wpt 0 0 10) (wpt 1 0 10), sgm MOVE (wpt 1 0 10) (wpt 2 0 10),
      sgm EXIT (wpt 2 0 0) (wpt 3 0 0)]
     (elevation_behavior ''terrainmapper.setElevation'' PLATEAU 10 0 True) False None
   = Some [sgm ENTER (wpt 0 0 10) (wpt 1 0 10), sgm MOVE (wpt 1 0 10) (wpt 2 0 10),
           sgm MOVE (wpt 2 0 10) (wpt 2 0 0), sgm EXIT (wpt 2 0 0) (wpt 3 0 0)]
   \<and> modifySegmentsForPlateau
     [sgm ENTER (wpt 0 0 10) (wpt 1 0 10), sgm MOVE (wpt 1 0 10) (wpt 2 0 10),
      sgm MOVE (wpt 2 0 10) (wpt 2 0 0), sgm EXIT (wpt 2 0 0) (wpt 3 0 0)]
     (elevation_behavior ''terrainmapper.setElevation'' PLATEAU 10 0 True) False None
   = Some [sgm ENTER (wpt 0 0 10) (wpt 1 0 10), sgm MOVE (wpt 1 0 10) (wpt 2 0 10),
           sgm MOVE (wpt 2 0 10) (wpt 2 0 10), sgm MOVE (wpt 2 0 10) (wpt 2 0 0),
           sgm EXIT (wpt 2 0 0) (wpt 3 0 0)]"
  by (simp add: scan_defs)

lemma stairs_reset_second_run:
  "modifySegmentsForStairs
     [sgm ENTER (wpt 0 0 0) (wpt 1 0 0), sgm MOVE (wpt 1 0 0) (wpt 2 0 0),
      sgm EXIT (wpt 2 0 0) (wpt 3 0 0)]
     (elevation_behavior ''terrainmapper.setElevation'' STAIRS 30 0 True) None
   = [sgm ENTER (wpt 0 0 0) (wpt 1 0 0), sgm MOVE (wpt 1 0 30) (wpt 2 0 30),
      sgm MOVE (wpt 2 0 30) (wpt 2 0 0), sgm EXIT (wpt 2 0 0) (wpt 3 0 0)]
   \<and> modifySegmentsForStairs
     [sgm ENTER (wpt 0 0 0) (wpt 1 0 0), sgm MOVE (wpt 1 0 30) (wpt 2 0 30),
      sgm MOVE (wpt 2 0 30) (wpt 2 0 0), sgm EXIT (wpt 2 0 0) (wpt 3 0 0)]
     (elevation_behavior ''terrainmapper.setElevation'' STAIRS 30 0 True) None
   = [sgm ENTER (wpt 0 0 0) (wpt 1 0 0), sgm MOVE (wpt 1 0 30) (wpt 2 0 30),
      sgm MOVE (wpt 2 0 30) (wpt 2 0 30), sgm MOVE (wpt 2 0 30) (wpt 2 0 0),
      sgm EXIT (wpt 2 0 0) (wpt 3 0 0)]"
  by (simp add: scan_defs)

lemma ramp_enter_second_run:
  "modifySegmentsForRamp
     [sgm ENTER (wpt 0 0 0) (wpt 1 0 0), sgm MOVE (wpt 1 0 0) (wpt 2 0 0)]
     (slope_behavior False) False None
   = Some [sgm ENTER (wpt 0 0 0) (wpt 1 0 0), sgm MOVE (wpt 1 0 0) (wpt 1 0 10),
           sgm MOVE (wpt 1 0 10) (wpt 2 0 20)]
   \<and> modifySegmentsForRamp
     [sgm ENTER (wpt 0 0 0) (wpt 1 0 0), sgm MOVE (wpt 1 0 0) (wpt 1 0 10),
      sgm MOVE (wpt 1 0 10) (wpt 2 0 20)]
     (slope_behavior False) False None
   = Some [sgm ENTER (wpt 0 0 0) (wpt 1 0 0), sgm MOVE (wpt 1 0 0) (wpt 1 0 10),
           sgm MOVE (wpt 1 0 10) (wpt 1 0 10), sgm MOVE (wpt 1 0 10) (wpt 2 0 20)]"
  by (simp add: scan_defs slope_behavior_def set_prev_to_elevation_def)

subsection \<open>The plateau scan\<close>









subsection \<open>The stairs scan\<close>









subsection \<open>The ramp scan\<close>













subsection \<open>Scans that cannot splice\<close>






subsection \<open>The second run\<close>



section \<open>The ramp elevation\<close>

lemma sqrt_100: "sqrt 100 = 10"
  using real_sqrt_abs [of 10] by simp

text \<open>
  The step size is configured as a region flag, which the class reads through its getter
  \<open>rampStepSize\<close>. The evaluation takes \<open>rampStepHeight\<close> from \<open>this\<close>, a name the class
  does not declare. On a handler made by the constructor that read gives \<open>undefined\<close>, the
  test \<open>!rampStepHeight\<close> succeeds, and the stepped formula is never reached: the result is
  the same whatever the step size.
\<close>

lemma ramp_step_size_never_read:
  "rampElevation lib (new_handler rgn plateau elev fl direction stepSize) w
     = rampElevation lib (new_handler rgn plateau elev fl direction 0) w"
  by (simp add: rampElevation_def minMax_def new_handler_def Let_def
        split: sum.splits option.splits)

text \<open>
  Were the step height found under the name the evaluation reads, the same formula would
  give the step below: at a fifth of the way from 10 to 25 with step 5, elevation 10.
\<close>

lemma ramp_steps_when_height_is_found:
  "rampElevation lib ((new_handler (rect_region 0 0 10 10) False 25 10 0 5)
                        \<lparr> h_rampStepHeight := Some 5 \<rparr>) (wpt 5 2 0) = Inr 10"
  by (simp add: axis_defs ramp_defs)

text \<open>
  Apart from the step height, the far end of the axis returns the ceiling as it is, also
  where the step height does not divide the rise: from 10 to 25 with step 4 it is 25.
\<close>

lemma ramp_far_end_returns_ceiling:
  "rampElevation lib ((new_handler (rect_region 0 0 10 10) False 25 10 0 4)
                        \<lparr> h_rampStepHeight := Some 4 \<rparr>) (wpt 5 10 0) = Inr 25
   \<and> \<not> on_step 10 4 25"
  by (simp add: axis_defs ramp_defs on_step_def sqrt_100)

text \<open>
  Claim C5. For a ramp with step height \<open>h > 0\<close>, the elevations returned are exactly the
  step elevations \<open>floor, floor + h, floor + 2h, \<dots>\<close> within \<open>[floor, ceiling]\<close>, and none
  strictly between two consecutive ones.
  The code does not do this. Take the ramp of the comment in the evaluation itself, from
  10 to 25 with step size 5, whose step elevations are 10, 15, 20 and 25, over the square
  from (0, 0) to (10, 10) with direction 0, so that the axis runs from (5, 0) to (5, 10).
  At (5, 2), a fifth of the way along, the handler made by the constructor returns 13,
  strictly between the steps 10 and 15.
\<close>

theorem stepped_ramp_returns_unstepped_elevation:
  "h_rampStepSize (new_handler (rect_region 0 0 10 10) False 25 10 0 5) = 5
   \<and> rampElevation lib (new_handler (rect_region 0 0 10 10) False 25 10 0 5) (wpt 5 2 0)
       = Inr 13
   \<and> on_step 10 5 10 \<and> on_step 10 5 15 \<and> \<not> on_step 10 5 13"
  by (simp add: axis_defs ramp_defs on_step_def)

section \<open>Plateau: entering\<close>



section \<open>A ramp whose axis has no length\<close>

text \<open>
  Claim C7, as stated: when the min and max points coincide, the ramp evaluation
  special-cases the geometry and returns the ramp floor. The code has no such case. For a
  region flattened onto the line \<open>y = 5\<close>, direction 0, both axis points are (5, 5); the
  host is asked for the closest point on a segment of length zero, which it rejects, and
  no elevation is returned.
\<close>

theorem ramp_degenerate_axis_counterexample:
  "minMax flat_ground (new_handler (rect_region 0 5 10 5) False 25 10 0 0)
     = Inr (Some \<lparr> dmin = \<lparr> pt_x = 5, pt_y = 5, dist2 = 0 \<rparr>,
                    dmax = \<lparr> pt_x = 5, pt_y = 5, dist2 = 0 \<rparr> \<rparr>)
   \<and> rampElevation flat_ground (new_handler (rect_region 0 5 10 5) False 25 10 0 0) (wpt 3 3 0)
     = Inl ZeroLengthSegment"
  by (simp add: axis_defs ramp_defs)

text \<open>
  Claim C7, amended. For every ramp whose min and max axis points coincide, and every
  waypoint, the ramp evaluation returns no elevation: the zero-length axis is rejected
  before any quotient is formed. The only guard of the evaluation is for a missing axis
  (no positive polygon), where it returns the waypoint's own elevation.
\<close>

theorem ramp_degenerate_axis_gives_no_elevation:
  "(minMax lib h = Inr (Some mm) \<and> pt_x (dmin mm) = pt_x (dmax mm)
      \<and> pt_y (dmin mm) = pt_y (dmax mm) \<longrightarrow> rampElevation lib h w = Inl ZeroLengthSegment)
   \<and> (minMax lib h = Inr None \<longrightarrow> rampElevation lib h w = Inr (wp_elevation w))"
  by (simp add: rampElevation_def closestPointToSegment_def)

theorem ramp_degenerate_axis_witness:
  "minMax flat_ground (new_handler (rect_region 0 5 10 5) False 25 10 0 0)
     = Inr (Some \<lparr> dmin = \<lparr> pt_x = 5, pt_y = 5, dist2 = 0 \<rparr>,
                    dmax = \<lparr> pt_x = 5, pt_y = 5, dist2 = 0 \<rparr> \<rparr>)
   \<and> rampElevation flat_ground (new_handler (rect_region 0 5 10 5) False 25 10 0 0) (wpt 7 1 2)
     = Inl ZeroLengthSegment
   \<and> minMax flat_ground (new_handler \<lparr> polygons = [], bounds = bounds (rect_region 0 5 10 5) \<rparr>
               False 25 10 0 0) = Inr None
   \<and> rampElevation flat_ground
         (new_handler \<lparr> polygons = [], bounds = bounds (rect_region 0 5 10 5) \<rparr>
            False 25 10 0 0) (wpt 7 1 2) = Inr 2"
proof -
  let ?h = "new_handler (rect_region 0 5 10 5) False 25 10 0 0"
  let ?mm = "\<lparr> dmin = \<lparr> pt_x = 5, pt_y = 5, dist2 = 0 \<rparr>,
               dmax = \<lparr> pt_x = 5, pt_y = 5, dist2 = 0 \<rparr> \<rparr>"
  let ?g = "new_handler \<lparr> polygons = [], bounds = bounds (rect_region 0 5 10 5) \<rparr>
               False 25 10 0 0"
  have m: "minMax flat_ground ?h = Inr (Some ?mm)" by (simp add: axis_defs ramp_defs)
  have m0: "minMax flat_ground ?g = Inr None" by (simp add: axis_defs ramp_defs)
  from ramp_degenerate_axis_gives_no_elevation [of flat_ground ?h ?mm "wpt 7 1 2"]
    ramp_degenerate_axis_gives_no_elevation [of flat_ground ?g ?mm "wpt 7 1 2"] m m0
  show ?thesis by simp
qed

section \<open>Directions a full turn apart\<close>






section \<open>A vertical move against the ground\<close>

text \<open>
  Claim C9. For waypoints \<open>a\<close> and \<open>b\<close> with equal x and y, the segment intersection is the
  point of \<open>a\<close> at the higher of the two nearest-ground elevations when that elevation lies
  between the elevations of \<open>a\<close> and \<open>b\<close> (ends included), and \<open>null\<close> otherwise.
\<close>

theorem vertical_move_intersection:
  assumes "wp_x a = wp_x b" and "wp_y a = wp_y b"
  shows "plateauSegmentIntersection sv h a b =
           (let e = max (nearestGroundElevation sv a) (nearestGroundElevation sv b) in
            if min (wp_elevation a) (wp_elevation b) \<le> e
               \<and> e \<le> max (wp_elevation a) (wp_elevation b)
            then Inr (Some \<lparr> loc_x = wp_x a, loc_y = wp_y a, loc_elevation = Some e \<rparr>)
            else Inr None)"
  using assms
  by (simp add: plateauSegmentIntersection_def regionWaypointsXYEqual_def between_def Let_def)

theorem vertical_move_intersection_witness:
  "wp_x (wpt 1 2 0) = wp_x (wpt 1 2 10) \<and> wp_y (wpt 1 2 0) = wp_y (wpt 1 2 10)
   \<and> plateauSegmentIntersection flat_ground
        (new_handler (rect_region 0 0 10 10) True 10 0 0 0) (wpt 1 2 0) (wpt 1 2 10)
       = Inr (Some \<lparr> loc_x = 1, loc_y = 2, loc_elevation = Some 5 \<rparr>)
   \<and> plateauSegmentIntersection flat_ground
        (new_handler (rect_region 0 0 10 10) True 10 0 0 0) (wpt 1 2 7) (wpt 1 2 10)
       = Inr None"
  using vertical_move_intersection [of "wpt 1 2 0" "wpt 1 2 10" flat_ground
      "new_handler (rect_region 0 0 10 10) True 10 0 0 0"]
    vertical_move_intersection [of "wpt 1 2 7" "wpt 1 2 10" flat_ground
      "new_handler (rect_region 0 0 10 10) True 10 0 0 0"]
  by (simp add: flat_ground_def)

section \<open>The guard of the three adjusters\<close>

text \<open>
  Claim C10. For every segment list and every behavior that is not a \<open>setElevation\<close>
  behavior, or is disabled, or whose algorithm is not the adjuster's, each of the three
  adjusters returns the list it was given, with nothing added, removed or changed.
\<close>

theorem guard_makes_adjusters_no_ops:
  "(btype b \<noteq> setElevation_type \<or> disabled b \<longrightarrow>
      modifySegmentsForPlateau segs b freefall sceneFlag = Some segs
      \<and> modifySegmentsForStairs segs b sceneFlag = segs
      \<and> modifySegmentsForRamp segs b freefall sceneFlag = Some segs)
   \<and> (algorithm (system b) \<noteq> PLATEAU \<longrightarrow>
        modifySegmentsForPlateau segs b freefall sceneFlag = Some segs)
   \<and> (algorithm (system b) \<noteq> STAIRS \<longrightarrow> modifySegmentsForStairs segs b sceneFlag = segs)
   \<and> (algorithm (system b) \<noteq> RAMP \<longrightarrow>
        modifySegmentsForRamp segs b freefall sceneFlag = Some segs)"
  by (simp add: modifySegmentsForPlateau_def modifySegmentsForStairs_def
        modifySegmentsForRamp_def)

theorem guard_witness:
  "btype (elevation_behavior ''terrainmapper.elevator'' PLATEAU 10 0 True) \<noteq> setElevation_type
   \<and> modifySegmentsForPlateau
       [sgm ENTER (wpt 0 0 0) (wpt 1 0 0), sgm EXIT (wpt 2 0 0) (wpt 3 0 0)]
       (elevation_behavior ''terrainmapper.elevator'' PLATEAU 10 0 True) True None
     = Some [sgm ENTER (wpt 0 0 0) (wpt 1 0 0), sgm EXIT (wpt 2 0 0) (wpt 3 0 0)]
   \<and> disabled ((elevation_behavior ''terrainmapper.setElevation'' STAIRS 30 0 True)
                 \<lparr> disabled := True \<rparr>)
   \<and> modifySegmentsForStairs
       [sgm ENTER (wpt 0 0 0) (wpt 1 0 0), sgm MOVE (wpt 1 0 0) (wpt 2 0 0)]
       ((elevation_behavior ''terrainmapper.setElevation'' STAIRS 30 0 True)
          \<lparr> disabled := True \<rparr>) None
     = [sgm ENTER (wpt 0 0 0) (wpt 1 0 0), sgm MOVE (wpt 1 0 0) (wpt 2 0 0)]
   \<and> algorithm (system (elevation_behavior ''terrainmapper.setElevation'' NONE 10 0 True))
       \<noteq> PLATEAU
   \<and> algorithm (system (elevation_behavior ''terrainmapper.setElevation'' NONE 10 0 True))
       \<noteq> STAIRS
   \<and> algorithm (system (elevation_behavior ''terrainmapper.setElevation'' NONE 10 0 True))
       \<noteq> RAMP
   \<and> modifySegmentsForPlateau
       [sgm ENTER (wpt 0 0 0) (wpt 1 0 0), sgm MOVE (wpt 1 0 0) (wpt 2 0 0)]
       (elevation_behavior ''terrainmapper.setElevation'' NONE 10 0 True) True None
     = Some [sgm ENTER (wpt 0 0 0) (wpt 1 0 0), sgm MOVE (wpt 1 0 0) (wpt 2 0 0)]
   \<and> modifySegmentsForStairs
       [sgm ENTER (wpt 0 0 0) (wpt 1 0 0), sgm MOVE (wpt 1 0 0) (wpt 2 0 0)]
       (elevation_behavior ''terrainmapper.setElevation'' NONE 10 0 True) None
     = [sgm ENTER (wpt 0 0 0) (wpt 1 0 0), sgm MOVE (wpt 1 0 0) (wpt 2 0 0)]
   \<and> modifySegmentsForRamp
       [sgm ENTER (wpt 0 0 0) (wpt 1 0 0), sgm MOVE (wpt 1 0 0) (wpt 2 0 0)]
       (elevation_behavior ''terrainmapper.setElevation'' NONE 10 0 True) True None
     = Some [sgm ENTER (wpt 0 0 0) (wpt 1 0 0), sgm MOVE (wpt 1 0 0) (wpt 2 0 0)]"
  using guard_makes_adjusters_no_ops
      [of "elevation_behavior ''terrainmapper.elevator'' PLATEAU 10 0 True"
          "[sgm ENTER (wpt 0 0 0) (wpt 1 0 0), sgm EXIT (wpt 2 0 0) (wpt 3 0 0)]" True None]
    guard_makes_adjusters_no_ops
      [of "(elevation_behavior ''terrainmapper.setElevation'' STAIRS 30 0 True)
             \<lparr> disabled := True \<rparr>"
          "[sgm ENTER (wpt 0 0 0) (wpt 1 0 0), sgm MOVE (wpt 1 0 0) (wpt 2 0 0)]" True None]
    guard_makes_adjusters_no_ops
      [of "elevation_behavior ''terrainmapper.setElevation'' NONE 10 0 True"
          "[sgm ENTER (wpt 0 0 0) (wpt 1 0 0), sgm MOVE (wpt 1 0 0) (wpt 2 0 0)]" True None]
  by (simp add: elevation_behavior_def setElevation_type_def MODULE_ID_def)

end
